theory Spec2Isabelle
  imports Main
begin

section \<open>The task-submission pipeline of the student API\<close>

text \<open>
  The development embeds \<^verbatim>\<open>student_api/main.py\<close> and
  \<^verbatim>\<open>llm_agent/generator.py\<close>. The request handler \<^verbatim>\<open>generate_app\<close> validates a
  task request, asks the code-generation backend for source text, stages the files,
  publishes them to the hosting service and notifies the evaluation callback with
  retries. Every call that leaves the process is recorded as an event of a trace, and
  every Python exception is a value.
\<close>

subsection \<open>JSON values and Python values\<close>

text \<open>
  A decoded JSON document. An object is an association list in the dictionary's
  insertion order; a number with a fraction is kept as its decimal literal.
\<close>

datatype json =
    JNull
  | JBool bool
  | JInt int
  | JFloat string
  | JStr string
  | JList "json list"
  | JObj "(string \<times> json) list"

text \<open>
  Python exceptions. \<open>ValueError\<close> and \<open>RuntimeError\<close> carry the message the source
  builds; \<open>TypeError\<close>, \<open>KeyError\<close>, \<open>IndexError\<close> and \<open>AttributeError\<close> are raised by
  the interpreter; \<open>External\<close> is an exception raised inside a collaborator
  (the HTTP library, the hosting client, the operating system), with its text.
\<close>

datatype exn =
    ValueError string
  | RuntimeError string
  | TypeError
  | KeyError
  | IndexError
  | AttributeError
  | External string

text \<open>The reply of the code-generation backend, as the HTTP library presents it.\<close>

record http_response =
  status_code :: int
  text_body :: string
  json_body :: "string + json"

text \<open>
  Calls that leave the process, in the order they happen. \<open>GitRun\<close> is one
  \<^verbatim>\<open>subprocess.run\<close> with its argument vector and working directory.
\<close>

datatype event =
    SynthesisPost string "(string \<times> string) list" json
  | MakeDirs string
  | WriteFile string string
  | CreateRepo "string option" json
  | GitRun "string list" string
  | EnablePages string
  | CallbackPost json json "(string \<times> string) list"
  | Sleep nat
  | Print string

text \<open>
  The process environment and the collaborators. A collaborator answers with
  \<open>Inl msg\<close> when its call raises. The callback is indexed by the number of POSTs
  already made to it in this run, so an endpoint may answer differently on each attempt.
  \<open>run_git\<close> answers with the exit status of the child process, or raises when the
  process cannot be started. \<open>gh_create_repo\<close> takes the access token and the
  repository name and answers with the clone URL of the new repository;
  \<open>gh_enable_pages\<close> takes that clone URL. \<open>py_str\<close> is Python's \<^verbatim>\<open>str\<close> on a value that is not a
  string, and \<open>str_strip\<close> is Python's \<^verbatim>\<open>str.strip()\<close>, which removes the leading and
  trailing white space of Unicode.
\<close>

record world =
  STUDENT_SECRET :: "string option"
  GITHUB_TOKEN :: "string option"
  GITHUB_USERNAME :: "string option"
  AI_PIPE_API_URL :: "string option"
  AI_PIPE_API_KEY :: "string option"
  parent_dir :: string
  py_str :: "json \<Rightarrow> string"
  str_strip :: "string \<Rightarrow> string"
  ai_pipe :: "string \<Rightarrow> (string \<times> string) list \<Rightarrow> json \<Rightarrow> string + http_response"
  fs_makedirs :: "string \<Rightarrow> string + unit"
  fs_write :: "string \<Rightarrow> string \<Rightarrow> string + unit"
  gh_create_repo :: "string option \<Rightarrow> json \<Rightarrow> string + string"
  run_git :: "string list \<Rightarrow> string \<Rightarrow> string + int"
  gh_enable_pages :: "string \<Rightarrow> string + unit"
  callback :: "nat \<Rightarrow> json \<Rightarrow> json \<Rightarrow> string + int"

subsection \<open>Computations with a trace\<close>

text \<open>
  A computation returns a value or raises, and leaves the trace of the calls it made.
  \<open>run_bind\<close> sequences two computations: an exception of the first skips the second.
\<close>

type_synonym 'a run = "(exn + 'a) \<times> event list"

definition run_ret :: "'a \<Rightarrow> 'a run" where
  "run_ret a = (Inr a, [])"

definition run_lift :: "exn + 'a \<Rightarrow> 'a run" where
  "run_lift r = (r, [])"

definition run_bind :: "'a run \<Rightarrow> ('a \<Rightarrow> 'b run) \<Rightarrow> 'b run" where
  "run_bind m f =
     (case m of
        (Inl e, t) \<Rightarrow> (Inl e, t)
      | (Inr a, t) \<Rightarrow> (case f a of (r, t') \<Rightarrow> (r, t @ t')))"

text \<open>One call to a collaborator: the event is recorded whether or not the call raises.\<close>

definition call :: "event \<Rightarrow> string + 'a \<Rightarrow> 'a run" where
  "call ev r = (case r of Inl m \<Rightarrow> (Inl (External m), [ev]) | Inr a \<Rightarrow> (Inr a, [ev]))"

subsection \<open>The notification dispatcher\<close>

text \<open>
  \<^verbatim>\<open>post_to_evaluation_url\<close>: the loop over \<^verbatim>\<open>[1,2,4,8]\<close>. A reply with status 200
  returns \<open>True\<close> at once. An exception is printed. In both failing cases the loop
  sleeps \<open>r\<close> and goes on; after the last element it returns \<open>False\<close>.
\<close>

definition callback_headers :: "(string \<times> string) list" where
  "callback_headers = [(''Content-Type'', ''application/json'')]"

fun post_loop :: "world \<Rightarrow> json \<Rightarrow> json \<Rightarrow> nat \<Rightarrow> nat list \<Rightarrow> bool \<times> event list" where
  "post_loop w data url k [] = (False, [])"
| "post_loop w data url k (r # rs) =
     (case callback w k url data of
        Inr status \<Rightarrow>
          if status = 200 then (True, [CallbackPost url data callback_headers])
          else (case post_loop w data url (Suc k) rs of
                  (b, t) \<Rightarrow> (b, CallbackPost url data callback_headers # Sleep r # t))
      | Inl m \<Rightarrow>
          (case post_loop w data url (Suc k) rs of
             (b, t) \<Rightarrow> (b, CallbackPost url data callback_headers
                            # Print (''Error posting to evaluation_url: '' @ m) # Sleep r # t)))"

definition retries :: "nat list" where
  "retries = [1, 2, 4, 8]"

definition post_to_evaluation_url :: "world \<Rightarrow> json \<Rightarrow> json \<Rightarrow> bool \<times> event list" where
  "post_to_evaluation_url w data url = post_loop w data url 0 retries"

text \<open>An attempt succeeds when the call returns with status 200.\<close>

definition attempt_ok :: "world \<Rightarrow> json \<Rightarrow> json \<Rightarrow> nat \<Rightarrow> bool" where
  "attempt_ok w data url k = (callback w k url data = Inr 200)"

text \<open>The POSTs and the sleeps of a trace, without what was printed.\<close>

fun is_print :: "event \<Rightarrow> bool" where
  "is_print (Print _) = True"
| "is_print _ = False"

definition posts_and_sleeps :: "event list \<Rightarrow> event list" where
  "posts_and_sleeps t = filter (\<lambda>e. \<not> is_print e) t"

subsection \<open>Python operations on decoded JSON\<close>

text \<open>\<^verbatim>\<open>s.startswith(p)\<close> and the substring test \<^verbatim>\<open>p in s\<close> on strings.\<close>

fun startswith :: "string \<Rightarrow> string \<Rightarrow> bool" where
  "startswith s [] = True"
| "startswith [] (p # ps) = False"
| "startswith (c # cs) (p # ps) = (c = p \<and> startswith cs ps)"

fun is_substring :: "string \<Rightarrow> string \<Rightarrow> bool" where
  "is_substring p [] = (p = [])"
| "is_substring p (c # cs) = (startswith (c # cs) p \<or> is_substring p cs)"

text \<open>
  \<^verbatim>\<open>field in data\<close>: a key of a dictionary, an element of a list, a substring of a
  string; any other value is not iterable and the test raises.
\<close>

fun py_contains :: "json \<Rightarrow> string \<Rightarrow> exn + bool" where
  "py_contains (JObj kvs) f = Inr (f \<in> set (map fst kvs))"
| "py_contains (JList xs) f = Inr (JStr f \<in> set xs)"
| "py_contains (JStr s) f = Inr (is_substring f s)"
| "py_contains _ f = Inl TypeError"

text \<open>
  \<^verbatim>\<open>data[key]\<close> with a string key: only a dictionary can be indexed so; a missing key
  raises \<open>KeyError\<close>.
\<close>

fun py_getitem :: "json \<Rightarrow> string \<Rightarrow> exn + json" where
  "py_getitem (JObj kvs) k = (case map_of kvs k of None \<Rightarrow> Inl KeyError | Some v \<Rightarrow> Inr v)"
| "py_getitem _ k = Inl TypeError"

text \<open>
  \<^verbatim>\<open>x[0]\<close>: the first element of a list or the first character of a string, \<open>IndexError\<close>
  when empty; a dictionary decoded from JSON has string keys only, so \<open>0\<close> is a missing
  key.
\<close>

fun py_getitem0 :: "json \<Rightarrow> exn + json" where
  "py_getitem0 (JList []) = Inl IndexError"
| "py_getitem0 (JList (x # xs)) = Inr x"
| "py_getitem0 (JStr []) = Inl IndexError"
| "py_getitem0 (JStr (c # cs)) = Inr (JStr [c])"
| "py_getitem0 (JObj kvs) = Inl KeyError"
| "py_getitem0 _ = Inl TypeError"

definition exn_bind :: "exn + 'a \<Rightarrow> ('a \<Rightarrow> exn + 'b) \<Rightarrow> exn + 'b" where
  "exn_bind r f = (case r of Inl e \<Rightarrow> Inl e | Inr a \<Rightarrow> f a)"

text \<open>The value of \<^verbatim>\<open>os.getenv\<close>, as Python compares it with a decoded JSON value.\<close>

fun env_value :: "string option \<Rightarrow> json" where
  "env_value None = JNull"
| "env_value (Some s) = JStr s"

text \<open>A value inside an f-string.\<close>

fun format_value :: "world \<Rightarrow> json \<Rightarrow> string" where
  "format_value w (JStr s) = s"
| "format_value w v = py_str w v"

fun format_env :: "string option \<Rightarrow> string" where
  "format_env None = ''None''"
| "format_env (Some s) = s"

text \<open>An integer inside an f-string, in decimal.\<close>

definition digit_char :: "nat \<Rightarrow> char" where
  "digit_char n = char_of (48 + n)"

function str_nat :: "nat \<Rightarrow> string" where
  "str_nat n = (if n < 10 then [digit_char n] else str_nat (n div 10) @ [digit_char (n mod 10)])"
  by pat_completeness auto
termination
  by (relation "measure id") auto

definition str_int :: "int \<Rightarrow> string" where
  "str_int i = (if i < 0 then CHR ''-'' # str_nat (nat (- i)) else str_nat (nat i))"

text \<open>\<^verbatim>\<open>os.path.join\<close> of two POSIX path components.\<close>

definition path_join :: "string \<Rightarrow> string \<Rightarrow> string" where
  "path_join a b =
     (if startswith b ''/'' then b
      else if a = [] \<or> last a = CHR ''/'' then a @ b
      else a @ ''/'' @ b)"

definition nl :: string where
  "nl = [CHR 0x0A]"

subsection \<open>The code synthesizer\<close>

text \<open>
  \<^verbatim>\<open>generate_app_code\<close>. The two settings are read at each call; \<^verbatim>\<open>not api_url\<close>
  holds for an unset and for an empty variable. One POST goes to the backend. A status
  other than 200 raises \<open>RuntimeError\<close> with the status and the body. Of the exceptions
  of \<^verbatim>\<open>data["choices"][0]["message"]["content"]\<close> only \<open>KeyError\<close> and \<open>IndexError\<close>
  are turned into \<open>RuntimeError\<close>. \<^verbatim>\<open>code.strip()\<close> exists on a string only.
\<close>

definition full_prompt :: "world \<Rightarrow> json \<Rightarrow> string" where
  "full_prompt w prompt =
     nl @ ''    You are an AI developer that writes fully working FastAPI apps.'' @ nl
     @ ''    Generate complete, minimal, and runnable Python code for:'' @ nl
     @ ''    '' @ format_value w prompt @ nl
     @ nl
     @ ''    Include all necessary imports and ensure the code runs with:'' @ nl
     @ ''        uvicorn app:app --reload'' @ nl
     @ ''    ''"

definition ai_pipe_headers :: "string \<Rightarrow> (string \<times> string) list" where
  "ai_pipe_headers api_key =
     [(''Authorization'', ''Bearer '' @ api_key), (''Content-Type'', ''application/json'')]"

definition ai_pipe_payload :: "world \<Rightarrow> json \<Rightarrow> json" where
  "ai_pipe_payload w prompt =
     JObj [(''model'', JStr ''gpt-4o-mini''),
           (''messages'',
              JList [JObj [(''role'', JStr ''system''),
                           (''content'', JStr ''You are a professional Python app generator.'')],
                     JObj [(''role'', JStr ''user''),
                           (''content'', JStr (full_prompt w prompt))]]),
           (''temperature'', JFloat ''0.4'')]"

definition extract_content :: "world \<Rightarrow> json \<Rightarrow> exn + json" where
  "extract_content w data =
     (case exn_bind (exn_bind (exn_bind (py_getitem data ''choices'') py_getitem0)
                       (\<lambda>c. py_getitem c ''message''))
             (\<lambda>m. py_getitem m ''content'') of
        Inl KeyError \<Rightarrow> Inl (RuntimeError (''Unexpected AI Pipe response: '' @ format_value w data))
      | Inl IndexError \<Rightarrow> Inl (RuntimeError (''Unexpected AI Pipe response: '' @ format_value w data))
      | Inl e \<Rightarrow> Inl e
      | Inr code \<Rightarrow> Inr code)"

definition response_json :: "http_response \<Rightarrow> exn + json" where
  "response_json response =
     (case json_body response of Inl m \<Rightarrow> Inl (External m) | Inr data \<Rightarrow> Inr data)"

fun py_strip :: "world \<Rightarrow> json \<Rightarrow> exn + string" where
  "py_strip w (JStr s) = Inr (str_strip w s)"
| "py_strip w v = Inl AttributeError"

definition missing_config :: exn where
  "missing_config = ValueError ''Missing AI_PIPE_API_URL or AI_PIPE_API_KEY environment variables.''"

definition request_failed :: "http_response \<Rightarrow> exn" where
  "request_failed response =
     RuntimeError (''AI Pipe request failed: '' @ str_int (status_code response)
                   @ '' '' @ text_body response)"

definition generate_app_code :: "world \<Rightarrow> json \<Rightarrow> string run" where
  "generate_app_code w prompt =
     (case (AI_PIPE_API_URL w, AI_PIPE_API_KEY w) of
        (Some api_url, Some api_key) \<Rightarrow>
          if api_url = [] \<or> api_key = [] then run_lift (Inl missing_config)
          else
            run_bind (call (SynthesisPost api_url (ai_pipe_headers api_key) (ai_pipe_payload w prompt))
                        (ai_pipe w api_url (ai_pipe_headers api_key) (ai_pipe_payload w prompt)))
              (\<lambda>response.
                 if status_code response \<noteq> 200 then run_lift (Inl (request_failed response))
                 else
                   run_bind (run_lift (response_json response)) (\<lambda>data.
                   run_bind (run_lift (extract_content w data)) (\<lambda>code.
                   run_lift (py_strip w code))))
      | _ \<Rightarrow> run_lift (Inl missing_config))"

subsection \<open>The artifact store\<close>

text \<open>
  \<^verbatim>\<open>save_code_to_file\<close>, \<^verbatim>\<open>create_readme\<close> and \<^verbatim>\<open>add_mit_license\<close>.
  \<^verbatim>\<open>os.path.join\<close> raises \<open>TypeError\<close> on a task that is not a string.
\<close>

definition staged_folder :: "world \<Rightarrow> string \<Rightarrow> string" where
  "staged_folder w task = path_join (path_join (parent_dir w) ''generated_app'') task"

definition save_code_to_file :: "world \<Rightarrow> string \<Rightarrow> json \<Rightarrow> (string \<times> string) run" where
  "save_code_to_file w code task =
     (case task of
        JStr t \<Rightarrow>
          (let folder = staged_folder w t;
               file_path = path_join folder ''app.py''
           in run_bind (call (MakeDirs folder) (fs_makedirs w folder)) (\<lambda>_.
              run_bind (call (WriteFile file_path code) (fs_write w file_path code)) (\<lambda>_.
              run_ret (folder, file_path))))
      | _ \<Rightarrow> run_lift (Inl TypeError))"

definition create_readme :: "world \<Rightarrow> json \<Rightarrow> json \<Rightarrow> string" where
  "create_readme w task brief =
     ''# '' @ format_value w task @ nl @ nl
     @ ''## Brief'' @ nl @ format_value w brief @ nl @ nl
     @ ''## Usage'' @ nl @ ''Run:'' @ nl @ ''```'' @ nl
     @ ''uvicorn app:app --reload'' @ nl @ ''```'' @ nl"

definition license_text :: string where
  "license_text =
     ''MIT License'' @ nl @ nl
     @ ''Copyright (c) 2025'' @ nl @ nl
     @ ''Permission is hereby granted, free of charge, to any person obtaining a copy...'' @ nl"

definition write_file :: "world \<Rightarrow> string \<Rightarrow> string \<Rightarrow> unit run" where
  "write_file w path content = call (WriteFile path content) (fs_write w path content)"

definition add_mit_license :: "world \<Rightarrow> string \<Rightarrow> unit run" where
  "add_mit_license w folder = write_file w (path_join folder ''LICENSE'') license_text"

subsection \<open>The publication service\<close>

text \<open>
  \<^verbatim>\<open>init_git_and_push\<close>: the repository is created, six git commands run in the staged
  folder, static hosting is enabled. \<^verbatim>\<open>subprocess.run\<close> is called without
  \<^verbatim>\<open>check\<close>, so the exit status of a command is dropped; only a command that cannot be
  started raises.
\<close>

definition git :: "world \<Rightarrow> string list \<Rightarrow> string \<Rightarrow> unit run" where
  "git w argv cwd = run_bind (call (GitRun argv cwd) (run_git w argv cwd)) (\<lambda>_. run_ret ())"

definition pages_url_of :: "world \<Rightarrow> json \<Rightarrow> string" where
  "pages_url_of w repo_name =
     ''https://'' @ format_env (GITHUB_USERNAME w) @ ''.github.io/'' @ format_value w repo_name @ ''/''"

definition init_git_and_push :: "world \<Rightarrow> string \<Rightarrow> json \<Rightarrow> (string \<times> string \<times> string) run" where
  "init_git_and_push w folder repo_name =
     run_bind (call (CreateRepo (GITHUB_TOKEN w) repo_name)
                 (gh_create_repo w (GITHUB_TOKEN w) repo_name)) (\<lambda>clone_url.
     run_bind (git w [''git'', ''init''] folder) (\<lambda>_.
     run_bind (git w [''git'', ''add'', ''.''] folder) (\<lambda>_.
     run_bind (git w [''git'', ''commit'', ''-m'', ''Initial commit''] folder) (\<lambda>_.
     run_bind (git w [''git'', ''branch'', ''-M'', ''main''] folder) (\<lambda>_.
     run_bind (git w [''git'', ''remote'', ''add'', ''origin'', clone_url] folder) (\<lambda>_.
     run_bind (git w [''git'', ''push'', ''-u'', ''origin'', ''main''] folder) (\<lambda>_.
     run_bind (call (EnablePages clone_url) (gh_enable_pages w clone_url)) (\<lambda>_.
     run_ret (clone_url, ''main'', pages_url_of w repo_name)))))))))"

subsection \<open>The request handler\<close>

text \<open>
  \<^verbatim>\<open>generate_app\<close>, the \<open>handle\<close> operation of the orchestrator. The request is the
  outcome of \<^verbatim>\<open>await request.json()\<close>: \<open>Inl msg\<close> when decoding raised, with the
  text of the exception, \<open>Inr data\<close> otherwise. The result is the returned dictionary
  or the exception that leaves the handler, with the trace of the run. The body of the
  handler is written in three parts: the checks (\<open>generate_app\<close>, lines 101 to 112),
  the steps from synthesis to publication (\<open>stage_and_publish\<close>, lines 114 to 132) and
  the notice with its reply (\<open>notify\<close>, lines 135 to 150); \<open>pipeline\<close> runs the
  last two in sequence.
\<close>

definition required_fields :: "string list" where
  "required_fields = [''email'', ''secret'', ''task'', ''round'', ''nonce'', ''brief'', ''evaluation_url'']"

fun check_fields :: "json \<Rightarrow> string list \<Rightarrow> exn + string option" where
  "check_fields data [] = Inr None"
| "check_fields data (field # rest) =
     (case py_contains data field of
        Inl e \<Rightarrow> Inl e
      | Inr present \<Rightarrow> if \<not> present then Inr (Some field) else check_fields data rest)"

definition error_response :: "string \<Rightarrow> json" where
  "error_response msg = JObj [(''error'', JStr msg)]"

definition success_response :: "string \<Rightarrow> string \<Rightarrow> json" where
  "success_response repo_url pages_url =
     JObj [(''message'', JStr ''Task completed successfully''),
           (''repo_url'', JStr repo_url),
           (''pages_url'', JStr pages_url)]"

definition notice :: "json \<Rightarrow> json \<Rightarrow> json \<Rightarrow> json \<Rightarrow> string \<Rightarrow> string \<Rightarrow> string \<Rightarrow> json" where
  "notice email task round nonce repo_url commit_sha pages_url =
     JObj [(''email'', email), (''task'', task), (''round'', round), (''nonce'', nonce),
           (''repo_url'', JStr repo_url), (''commit_sha'', JStr commit_sha),
           (''pages_url'', JStr pages_url)]"

definition notify :: "world \<Rightarrow> json \<Rightarrow> string \<Rightarrow> string \<Rightarrow> string \<Rightarrow> json run" where
  "notify w data repo_url commit_sha pages_url =
     run_bind (run_lift (py_getitem data ''email'')) (\<lambda>email.
     run_bind (run_lift (py_getitem data ''task'')) (\<lambda>task.
     run_bind (run_lift (py_getitem data ''round'')) (\<lambda>round.
     run_bind (run_lift (py_getitem data ''nonce'')) (\<lambda>nonce.
     run_bind (run_lift (py_getitem data ''evaluation_url'')) (\<lambda>url.
       (case post_to_evaluation_url w
               (notice email task round nonce repo_url commit_sha pages_url) url of
          (success, t) \<Rightarrow>
            (Inr (if \<not> success
                  then error_response ''Failed to post to evaluation_url after retries''
                  else success_response repo_url pages_url), t)))))))"

definition stage_and_publish :: "world \<Rightarrow> json \<Rightarrow> (string \<times> string \<times> string) run" where
  "stage_and_publish w data =
     run_bind (run_lift (py_getitem data ''task'')) (\<lambda>task.
     run_bind (run_lift (py_getitem data ''brief'')) (\<lambda>brief.
     run_bind (generate_app_code w brief) (\<lambda>code.
     run_bind (save_code_to_file w code task) (\<lambda>(folder, file_path).
     run_bind (write_file w (path_join folder ''README.md'') (create_readme w task brief)) (\<lambda>_.
     run_bind (add_mit_license w folder) (\<lambda>_.
     init_git_and_push w folder task))))))"

definition pipeline :: "world \<Rightarrow> json \<Rightarrow> json run" where
  "pipeline w data =
     run_bind (stage_and_publish w data) (\<lambda>(repo_url, commit_sha, pages_url).
     notify w data repo_url commit_sha pages_url)"

definition generate_app :: "world \<Rightarrow> string + json \<Rightarrow> json run" where
  "generate_app w request =
     (case request of
        Inl e \<Rightarrow> run_ret (error_response (''Invalid JSON: '' @ e))
      | Inr data \<Rightarrow>
          run_bind (run_lift (check_fields data required_fields)) (\<lambda>missing.
            case missing of
              Some field \<Rightarrow> run_ret (error_response (''Missing field: '' @ field))
            | None \<Rightarrow>
                run_bind (run_lift (py_getitem data ''secret'')) (\<lambda>secret.
                  if secret \<noteq> env_value (STUDENT_SECRET w)
                  then run_ret (error_response ''Invalid secret'')
                  else pipeline w data)))"

text \<open>
  A request passes the checks of the handler when no required field is missing and its
  secret equals the configured one.
\<close>

definition accepted :: "world \<Rightarrow> json \<Rightarrow> bool" where
  "accepted w data =
     (check_fields data required_fields = Inr None \<and>
      py_getitem data ''secret'' = Inr (env_value (STUDENT_SECRET w)))"

text \<open>The POSTs to the callback in a trace, and the events of the dispatcher.\<close>

fun is_callback_post :: "event \<Rightarrow> bool" where
  "is_callback_post (CallbackPost url data headers) = True"
| "is_callback_post e = False"

definition callback_posts :: "event list \<Rightarrow> event list" where
  "callback_posts t = filter is_callback_post t"

fun is_notification :: "event \<Rightarrow> bool" where
  "is_notification (CallbackPost url data headers) = True"
| "is_notification (Sleep r) = True"
| "is_notification (Print line) = True"
| "is_notification e = False"


subsection \<open>A sample deployment\<close>

text \<open>
  The request of the end-to-end scenario, and a world in which every collaborator
  succeeds: the backend answers with source text, the hosting service reports the clone
  URL of the repository it created, every git command exits with 0 and the callback
  answers 200.
\<close>

definition demo_request :: json where
  "demo_request =
     JObj [(''email'', JStr ''a@b.com''), (''secret'', JStr ''S''), (''task'', JStr ''demo1''),
           (''round'', JInt 1), (''nonce'', JStr ''n1''), (''brief'', JStr ''a hello-world API''),
           (''evaluation_url'', JStr ''http://eval/cb'')]"

definition demo_reply :: http_response where
  "demo_reply =
     \<lparr>status_code = 200, text_body = [],
      json_body = Inr (JObj [(''choices'',
                    JList [JObj [(''message'', JObj [(''content'', JStr '' app = 1 '')])]])])\<rparr>"

text \<open>
  Python's \<^verbatim>\<open>str\<close> on the values the samples format: scalars and empty containers.
  On a list or a dictionary with elements, where Python prints the elements, it answers
  with an ellipsis; no sample formats one.
\<close>

fun sample_str :: "json \<Rightarrow> string" where
  "sample_str JNull = ''None''"
| "sample_str (JBool b) = (if b then ''True'' else ''False'')"
| "sample_str (JInt i) = str_int i"
| "sample_str (JFloat s) = s"
| "sample_str (JStr s) = s"
| "sample_str (JList []) = ''[]''"
| "sample_str (JList (x # xs)) = ''[...]''"
| "sample_str (JObj []) = ''{}''"
| "sample_str (JObj (kv # kvs)) = ''{...}''"

text \<open>
  \<^verbatim>\<open>str.strip()\<close> on ASCII text, which is what the samples hold: the white space of
  ASCII is removed from both ends.
\<close>

definition is_space :: "char \<Rightarrow> bool" where
  "is_space c = (c \<in> set [CHR 0x09, CHR 0x0A, CHR 0x0B, CHR 0x0C, CHR 0x0D,
                            CHR 0x1C, CHR 0x1D, CHR 0x1E, CHR 0x1F, CHR 0x20])"

definition strip :: "string \<Rightarrow> string" where
  "strip s = rev (dropWhile is_space (rev (dropWhile is_space s)))"

fun name_text :: "json \<Rightarrow> string" where
  "name_text (JStr n) = n"
| "name_text v = []"

definition demo_world :: world where
  "demo_world =
     \<lparr>STUDENT_SECRET = Some ''S'',
      GITHUB_TOKEN = Some ''T'',
      GITHUB_USERNAME = Some ''user'',
      AI_PIPE_API_URL = Some ''http://ai/pipe'',
      AI_PIPE_API_KEY = Some ''K'',
      parent_dir = ''/srv'',
      py_str = sample_str,
      str_strip = strip,
      ai_pipe = (\<lambda>url headers payload. Inr demo_reply),
      fs_makedirs = (\<lambda>path. Inr ()),
      fs_write = (\<lambda>path content. Inr ()),
      gh_create_repo = (\<lambda>token name. Inr (''https://github.com/user/'' @ name_text name @ ''.git'')),
      run_git = (\<lambda>argv cwd. Inr 0),
      gh_enable_pages = (\<lambda>repo. Inr ()),
      callback = (\<lambda>k url data. Inr 200)\<rparr>"

text \<open>
  Two callbacks: one that fails on every attempt, by a status or by an exception, and
  one that succeeds on the third attempt only.
\<close>

definition always_fails :: world where
  "always_fails = demo_world\<lparr>callback := (\<lambda>k url data. if even k then Inr 500 else Inl ''timeout'')\<rparr>"

definition third_succeeds :: world where
  "third_succeeds = demo_world\<lparr>callback := (\<lambda>k url data. if k = 2 then Inr 200 else Inr 503)\<rparr>"

text \<open>
  The sample request without its nonce, and the sample request with a secret that is
  not the configured one.
\<close>

definition no_nonce_request :: json where
  "no_nonce_request =
     JObj [(''email'', JStr ''a@b.com''), (''secret'', JStr ''S''), (''task'', JStr ''demo1''),
           (''round'', JInt 1), (''brief'', JStr ''a hello-world API''),
           (''evaluation_url'', JStr ''http://eval/cb'')]"

definition wrong_secret_request :: json where
  "wrong_secret_request =
     JObj [(''email'', JStr ''a@b.com''), (''secret'', JStr ''guess''), (''task'', JStr ''demo1''),
           (''round'', JInt 1), (''nonce'', JStr ''n1''), (''brief'', JStr ''a hello-world API''),
           (''evaluation_url'', JStr ''http://eval/cb'')]"

text \<open>
  The notice of the sample request in the sample deployment.
\<close>

definition demo_notice :: json where
  "demo_notice =
     JObj [(''email'', JStr ''a@b.com''), (''task'', JStr ''demo1''), (''round'', JInt 1),
           (''nonce'', JStr ''n1''), (''repo_url'', JStr ''https://github.com/user/demo1.git''),
           (''commit_sha'', JStr ''main''),
           (''pages_url'', JStr ''https://user.github.io/demo1/'')]"












section \<open>Properties\<close>

subsection \<open>The retry schedule\<close>

lemma post_loop_failed:
  assumes "\<not> attempt_ok w data url k"
  shows "fst (post_loop w data url k (r # rs)) = fst (post_loop w data url (Suc k) rs)"
    and "posts_and_sleeps (snd (post_loop w data url k (r # rs))) =
           CallbackPost url data callback_headers # Sleep r
           # posts_and_sleeps (snd (post_loop w data url (Suc k) rs))"
  using assms
  by (auto simp: attempt_ok_def posts_and_sleeps_def split: sum.splits prod.splits)

lemma post_loop_ok:
  assumes "attempt_ok w data url k"
  shows "post_loop w data url k (r # rs) = (True, [CallbackPost url data callback_headers])"
  using assms by (simp add: attempt_ok_def)

lemma post_loop_all_failed:
  "(\<forall>i<length rs. \<not> attempt_ok w data url (k + i)) \<Longrightarrow>
     fst (post_loop w data url k rs) = False \<and>
     posts_and_sleeps (snd (post_loop w data url k rs)) =
       concat (map (\<lambda>r. [CallbackPost url data callback_headers, Sleep r]) rs)"
proof (induction rs arbitrary: k)
  case Nil
  show ?case by (simp add: posts_and_sleeps_def)
next
  case (Cons r rs)
  have here: "\<not> attempt_ok w data url k"
    using Cons.prems by (metis add.right_neutral length_greater_0_conv list.distinct(1))
  have later: "\<forall>i<length rs. \<not> attempt_ok w data url (Suc k + i)"
    using Cons.prems by (metis Suc_less_eq add_Suc_shift length_Cons)
  from Cons.IH [OF later] show ?case
    by (simp add: post_loop_failed [OF here] del: post_loop.simps)
qed

lemma post_loop_first_ok:
  "n < length rs \<Longrightarrow> (\<forall>i<n. \<not> attempt_ok w data url (k + i)) \<Longrightarrow>
   attempt_ok w data url (k + n) \<Longrightarrow>
     fst (post_loop w data url k rs) = True \<and>
     posts_and_sleeps (snd (post_loop w data url k rs)) =
       concat (map (\<lambda>r. [CallbackPost url data callback_headers, Sleep r]) (take n rs))
       @ [CallbackPost url data callback_headers]"
proof (induction rs arbitrary: k n)
  case Nil
  then show ?case by simp
next
  case (Cons r rs)
  show ?case
  proof (cases n)
    case 0
    with Cons.prems have "attempt_ok w data url k" by simp
    then show ?thesis using 0
      by (simp add: post_loop_ok posts_and_sleeps_def del: post_loop.simps)
  next
    case (Suc m)
    have here: "\<not> attempt_ok w data url k"
      using Cons.prems(2) Suc by (metis add.right_neutral zero_less_Suc)
    have later: "\<forall>i<m. \<not> attempt_ok w data url (Suc k + i)"
      using Cons.prems(2) Suc by (metis Suc_less_eq add_Suc_shift)
    have ok: "attempt_ok w data url (Suc k + m)"
      using Cons.prems(3) Suc by simp
    have len: "m < length rs" using Cons.prems(1) Suc by simp
    from Cons.IH [OF len later ok] show ?thesis using Suc
      by (simp add: post_loop_failed [OF here] del: post_loop.simps)
  qed
qed

text \<open>
  C3. Against a callback that fails on all four attempts the dispatcher makes exactly four
  POSTs, sleeps 1, 2, 4 and 8 after them in this order, and returns \<open>False\<close>. Against a
  callback that first succeeds on the third attempt it makes exactly three POSTs with
  the sleeps 1 and 2 in between, returns \<open>True\<close>, and neither posts nor sleeps again.
\<close>

theorem retry_bound:
  "((\<forall>k<4. \<not> attempt_ok w data url k) \<longrightarrow>
      fst (post_to_evaluation_url w data url) = False \<and>
      posts_and_sleeps (snd (post_to_evaluation_url w data url)) =
        [CallbackPost url data callback_headers, Sleep 1,
         CallbackPost url data callback_headers, Sleep 2,
         CallbackPost url data callback_headers, Sleep 4,
         CallbackPost url data callback_headers, Sleep 8]) \<and>
   (\<not> attempt_ok w data url 0 \<and> \<not> attempt_ok w data url 1 \<and> attempt_ok w data url 2 \<longrightarrow>
      fst (post_to_evaluation_url w data url) = True \<and>
      posts_and_sleeps (snd (post_to_evaluation_url w data url)) =
        [CallbackPost url data callback_headers, Sleep 1,
         CallbackPost url data callback_headers, Sleep 2,
         CallbackPost url data callback_headers])"
proof (intro conjI impI)
  assume a: "\<forall>k<4. \<not> attempt_ok w data url k"
  then have "\<forall>i<length retries. \<not> attempt_ok w data url (0 + i)"
    by (simp add: retries_def)
  from post_loop_all_failed [OF this]
  show "fst (post_to_evaluation_url w data url) = False"
    and "posts_and_sleeps (snd (post_to_evaluation_url w data url)) =
        [CallbackPost url data callback_headers, Sleep 1,
         CallbackPost url data callback_headers, Sleep 2,
         CallbackPost url data callback_headers, Sleep 4,
         CallbackPost url data callback_headers, Sleep 8]"
    by (simp_all add: post_to_evaluation_url_def retries_def del: post_loop.simps)
next
  assume a: "\<not> attempt_ok w data url 0 \<and> \<not> attempt_ok w data url 1 \<and> attempt_ok w data url 2"
  have len: "2 < length retries" by (simp add: retries_def)
  have before: "\<forall>i<2. \<not> attempt_ok w data url (0 + i)"
    using a by (auto simp: less_Suc_eq numeral_2_eq_2)
  have ok: "attempt_ok w data url (0 + 2)" using a by (simp add: numeral_2_eq_2)
  from post_loop_first_ok [OF len before ok]
  show "fst (post_to_evaluation_url w data url) = True"
    and "posts_and_sleeps (snd (post_to_evaluation_url w data url)) =
        [CallbackPost url data callback_headers, Sleep 1,
         CallbackPost url data callback_headers, Sleep 2,
         CallbackPost url data callback_headers]"
    by (simp_all add: post_to_evaluation_url_def retries_def numeral_2_eq_2 del: post_loop.simps)
qed

theorem retry_bound_witness:
  "(\<not> attempt_ok always_fails (JInt 7) (JStr ''http://eval/cb'') 0 \<and>
    \<not> attempt_ok always_fails (JInt 7) (JStr ''http://eval/cb'') 1 \<and>
    \<not> attempt_ok always_fails (JInt 7) (JStr ''http://eval/cb'') 2 \<and>
    \<not> attempt_ok always_fails (JInt 7) (JStr ''http://eval/cb'') 3) \<and>
   post_to_evaluation_url always_fails (JInt 7) (JStr ''http://eval/cb'') =
     (False,
      [CallbackPost (JStr ''http://eval/cb'') (JInt 7) callback_headers, Sleep 1,
       CallbackPost (JStr ''http://eval/cb'') (JInt 7) callback_headers,
       Print ''Error posting to evaluation_url: timeout'', Sleep 2,
       CallbackPost (JStr ''http://eval/cb'') (JInt 7) callback_headers, Sleep 4,
       CallbackPost (JStr ''http://eval/cb'') (JInt 7) callback_headers,
       Print ''Error posting to evaluation_url: timeout'', Sleep 8]) \<and>
   fst (post_to_evaluation_url always_fails (JInt 7) (JStr ''http://eval/cb'')) = False \<and>
   posts_and_sleeps (snd (post_to_evaluation_url always_fails (JInt 7) (JStr ''http://eval/cb''))) =
      [CallbackPost (JStr ''http://eval/cb'') (JInt 7) callback_headers, Sleep 1,
       CallbackPost (JStr ''http://eval/cb'') (JInt 7) callback_headers, Sleep 2,
       CallbackPost (JStr ''http://eval/cb'') (JInt 7) callback_headers, Sleep 4,
       CallbackPost (JStr ''http://eval/cb'') (JInt 7) callback_headers, Sleep 8] \<and>
   (\<not> attempt_ok third_succeeds (JInt 7) (JStr ''http://eval/cb'') 0 \<and>
    \<not> attempt_ok third_succeeds (JInt 7) (JStr ''http://eval/cb'') 1 \<and>
    attempt_ok third_succeeds (JInt 7) (JStr ''http://eval/cb'') 2) \<and>
   fst (post_to_evaluation_url third_succeeds (JInt 7) (JStr ''http://eval/cb'')) = True \<and>
   posts_and_sleeps (snd (post_to_evaluation_url third_succeeds (JInt 7) (JStr ''http://eval/cb''))) =
      [CallbackPost (JStr ''http://eval/cb'') (JInt 7) callback_headers, Sleep 1,
       CallbackPost (JStr ''http://eval/cb'') (JInt 7) callback_headers, Sleep 2,
       CallbackPost (JStr ''http://eval/cb'') (JInt 7) callback_headers]"
proof -
  have f: "\<forall>k<4. \<not> attempt_ok always_fails (JInt 7) (JStr ''http://eval/cb'') k"
    by (simp add: attempt_ok_def always_fails_def)
  have s: "\<not> attempt_ok third_succeeds (JInt 7) (JStr ''http://eval/cb'') 0 \<and>
    \<not> attempt_ok third_succeeds (JInt 7) (JStr ''http://eval/cb'') 1 \<and>
    attempt_ok third_succeeds (JInt 7) (JStr ''http://eval/cb'') 2"
    by (simp add: attempt_ok_def third_succeeds_def)
  have run: "post_to_evaluation_url always_fails (JInt 7) (JStr ''http://eval/cb'') =
     (False,
      [CallbackPost (JStr ''http://eval/cb'') (JInt 7) callback_headers, Sleep 1,
       CallbackPost (JStr ''http://eval/cb'') (JInt 7) callback_headers,
       Print ''Error posting to evaluation_url: timeout'', Sleep 2,
       CallbackPost (JStr ''http://eval/cb'') (JInt 7) callback_headers, Sleep 4,
       CallbackPost (JStr ''http://eval/cb'') (JInt 7) callback_headers,
       Print ''Error posting to evaluation_url: timeout'', Sleep 8])"
    by (simp add: post_to_evaluation_url_def retries_def always_fails_def)
  have f4: "\<not> attempt_ok always_fails (JInt 7) (JStr ''http://eval/cb'') 0 \<and>
    \<not> attempt_ok always_fails (JInt 7) (JStr ''http://eval/cb'') 1 \<and>
    \<not> attempt_ok always_fails (JInt 7) (JStr ''http://eval/cb'') 2 \<and>
    \<not> attempt_ok always_fails (JInt 7) (JStr ''http://eval/cb'') 3"
    using f by simp
  show ?thesis
    using f f4 s run
      retry_bound [of always_fails "JInt 7" "JStr ''http://eval/cb''"]
      retry_bound [of third_succeeds "JInt 7" "JStr ''http://eval/cb''"]
    by blast
qed

subsection \<open>Sequencing\<close>

lemma run_bind_lift_Inr [simp]: "run_bind (run_lift (Inr a)) f = f a"
  by (simp add: run_bind_def run_lift_def split: prod.splits)

lemma run_bind_lift_Inl [simp]: "run_bind (run_lift (Inl e)) f = (Inl e, [])"
  by (simp add: run_bind_def run_lift_def)

lemma run_bind_ret [simp]: "run_bind (run_ret a) f = f a"
  by (simp add: run_bind_def run_ret_def split: prod.splits)

lemma run_bind_Inl [simp]: "run_bind (Inl e, t) f = (Inl e, t)"
  by (simp add: run_bind_def)

lemma run_bind_Inr: "run_bind (Inr a, t) f = (fst (f a), t @ snd (f a))"
  by (simp add: run_bind_def split: prod.splits)

subsection \<open>Validation\<close>

lemma check_fields_first_missing:
  "py_contains data field = Inr False \<Longrightarrow>
   (\<forall>f \<in> set pre. py_contains data f = Inr True) \<Longrightarrow>
   check_fields data (pre @ field # post) = Inr (Some field)"
  by (induction pre) simp_all

lemma check_fields_all_present:
  "(\<forall>f \<in> set fs. py_contains data f = Inr True) \<Longrightarrow> check_fields data fs = Inr None"
  by (induction fs) simp_all

lemma py_contains_total:
  "py_contains data f = Inr b \<Longrightarrow> \<exists>c. py_contains data g = Inr c"
  by (cases data) simp_all

lemma first_missing_exists:
  "field \<in> set fs \<Longrightarrow> py_contains data field = Inr False \<Longrightarrow>
   \<exists>pre f post. fs = pre @ f # post \<and> py_contains data f = Inr False \<and>
      (\<forall>g \<in> set pre. py_contains data g = Inr True)"
proof (induction fs)
  case Nil
  then show ?case by simp
next
  case (Cons a fs)
  obtain c where c: "py_contains data a = Inr c"
    using py_contains_total [OF Cons.prems(2)] by blast
  show ?case
  proof (cases c)
    case False
    with c have "a # fs = [] @ a # fs \<and> py_contains data a = Inr False \<and>
      (\<forall>g \<in> set []. py_contains data g = Inr True)" by simp
    then show ?thesis by blast
  next
    case True
    with c Cons.prems have "field \<in> set fs" by auto
    from Cons.IH [OF this Cons.prems(2)] obtain pre f post where
      h: "fs = pre @ f # post" "py_contains data f = Inr False"
         "\<forall>g \<in> set pre. py_contains data g = Inr True" by blast
    have "a # fs = (a # pre) @ f # post \<and> py_contains data f = Inr False \<and>
      (\<forall>g \<in> set (a # pre). py_contains data g = Inr True)"
      using h c True by simp
    then show ?thesis by blast
  qed
qed

lemma generate_app_missing:
  "check_fields data required_fields = Inr (Some field) \<Longrightarrow>
   generate_app w (Inr data) = (Inr (error_response (''Missing field: '' @ field)), [])"
  by (simp add: generate_app_def run_ret_def)

lemma generate_app_invalid_json:
  "generate_app w (Inl msg) = (Inr (error_response (''Invalid JSON: '' @ msg)), [])"
  by (simp add: generate_app_def run_ret_def)

lemma generate_app_checked:
  "check_fields data required_fields = Inr None \<Longrightarrow> py_getitem data ''secret'' = Inr s \<Longrightarrow>
   generate_app w (Inr data) =
     (if s \<noteq> env_value (STUDENT_SECRET w) then (Inr (error_response ''Invalid secret''), [])
      else pipeline w data)"
  by (simp add: generate_app_def run_ret_def)

text \<open>
  C10. A body that cannot be decoded gives the response \<open>{error: "Invalid JSON: ..."}\<close>
  with the text of the decoding error and an empty trace: nothing is synthesized, stored,
  published or notified. The fields are examined in the order email, secret, task, round,
  nonce, brief, evaluation_url, and the error names the first one that is absent: when
  all fields before \<open>field\<close> in this order are keys of the object and \<open>field\<close> is
  not, the response is \<open>{error: "Missing field: field"}\<close>, again with an empty trace.
\<close>

theorem invalid_json_and_field_order:
  "generate_app w (Inl msg) = (Inr (error_response (''Invalid JSON: '' @ msg)), []) \<and>
   required_fields =
     [''email'', ''secret'', ''task'', ''round'', ''nonce'', ''brief'', ''evaluation_url''] \<and>
   (required_fields = pre @ field # post \<and>
    (\<forall>f \<in> set pre. f \<in> fst ` set kvs) \<and> field \<notin> fst ` set kvs \<longrightarrow>
      generate_app w (Inr (JObj kvs)) = (Inr (error_response (''Missing field: '' @ field)), []))"
proof (intro conjI impI)
  show "generate_app w (Inl msg) = (Inr (error_response (''Invalid JSON: '' @ msg)), [])"
    by (rule generate_app_invalid_json)
  show "required_fields =
     [''email'', ''secret'', ''task'', ''round'', ''nonce'', ''brief'', ''evaluation_url'']"
    by (rule required_fields_def)
next
  assume a: "required_fields = pre @ field # post \<and>
    (\<forall>f \<in> set pre. f \<in> fst ` set kvs) \<and> field \<notin> fst ` set kvs"
  have "check_fields (JObj kvs) (pre @ field # post) = Inr (Some field)"
    using a by (intro check_fields_first_missing) simp_all
  with a have "check_fields (JObj kvs) required_fields = Inr (Some field)" by simp
  then show "generate_app w (Inr (JObj kvs)) =
      (Inr (error_response (''Missing field: '' @ field)), [])"
    by (rule generate_app_missing)
qed

theorem invalid_json_and_field_order_witness:
  "generate_app demo_world (Inl ''Expecting value'') =
     (Inr (JObj [(''error'', JStr ''Invalid JSON: Expecting value'')]), []) \<and>
   generate_app demo_world (Inr no_nonce_request) =
     (Inr (JObj [(''error'', JStr ''Missing field: nonce'')]), [])"
proof -
  have split: "required_fields = [''email'', ''secret'', ''task'', ''round''] @ ''nonce''
      # [''brief'', ''evaluation_url'']"
    by (simp add: required_fields_def)
  have present: "\<forall>f \<in> set [''email'', ''secret'', ''task'', ''round''].
      f \<in> fst ` set [(''email'', JStr ''a@b.com''), (''secret'', JStr ''S''), (''task'', JStr ''demo1''),
           (''round'', JInt 1), (''brief'', JStr ''a hello-world API''),
           (''evaluation_url'', JStr ''http://eval/cb'')]"
    by simp
  have absent: "''nonce'' \<notin> fst ` set [(''email'', JStr ''a@b.com''), (''secret'', JStr ''S''), (''task'', JStr ''demo1''),
           (''round'', JInt 1), (''brief'', JStr ''a hello-world API''),
           (''evaluation_url'', JStr ''http://eval/cb'')]"
    by simp
  show ?thesis
    using split present absent
      invalid_json_and_field_order [of demo_world "''Expecting value''"
        "[''email'', ''secret'', ''task'', ''round'']" "''nonce''" "[''brief'', ''evaluation_url'']"
        "[(''email'', JStr ''a@b.com''), (''secret'', JStr ''S''), (''task'', JStr ''demo1''),
           (''round'', JInt 1), (''brief'', JStr ''a hello-world API''),
           (''evaluation_url'', JStr ''http://eval/cb'')]"]
    unfolding no_nonce_request_def error_response_def
    by simp
qed

text \<open>
  C2. When one of the seven required fields is missing from the request (Python's
  \<^verbatim>\<open>field not in data\<close> holds), the handler returns \<open>{error: "Missing field: f"}\<close>
  for a required field \<open>f\<close> that is missing, and the trace is empty: no synthesis,
  storage, publication or notification call is made. When \<open>field\<close> is the only
  missing one, the error names it.
\<close>

theorem validation_completeness:
  "field \<in> set required_fields \<and> py_contains data field = Inr False \<longrightarrow>
     (\<exists>f. f \<in> set required_fields \<and> py_contains data f = Inr False \<and>
        generate_app w (Inr data) = (Inr (error_response (''Missing field: '' @ f)), [])) \<and>
     ((\<forall>g \<in> set required_fields. g \<noteq> field \<longrightarrow> py_contains data g = Inr True) \<longrightarrow>
        generate_app w (Inr data) = (Inr (error_response (''Missing field: '' @ field)), []))"
proof (intro impI)
  assume a: "field \<in> set required_fields \<and> py_contains data field = Inr False"
  then obtain pre f post where
    h: "required_fields = pre @ f # post" "py_contains data f = Inr False"
       "\<forall>g \<in> set pre. py_contains data g = Inr True"
    using first_missing_exists [of field required_fields data] by blast
  have run: "generate_app w (Inr data) = (Inr (error_response (''Missing field: '' @ f)), [])"
    using check_fields_first_missing [OF h(2) h(3), of post] h(1)
    by (simp add: generate_app_missing)
  have mem: "f \<in> set required_fields" by (simp add: h(1))
  have only: "f = field" if "\<forall>g \<in> set required_fields. g \<noteq> field \<longrightarrow> py_contains data g = Inr True"
    using that mem h(2) by auto
  show "(\<exists>f. f \<in> set required_fields \<and> py_contains data f = Inr False \<and>
        generate_app w (Inr data) = (Inr (error_response (''Missing field: '' @ f)), [])) \<and>
     ((\<forall>g \<in> set required_fields. g \<noteq> field \<longrightarrow> py_contains data g = Inr True) \<longrightarrow>
        generate_app w (Inr data) = (Inr (error_response (''Missing field: '' @ field)), []))"
    using run mem h(2) only by blast
qed

theorem validation_completeness_witness:
  "''nonce'' \<in> set required_fields \<and> py_contains no_nonce_request ''nonce'' = Inr False \<and>
   generate_app demo_world (Inr no_nonce_request) =
     (Inr (JObj [(''error'', JStr ''Missing field: nonce'')]), [])"
proof -
  have m: "''nonce'' \<in> set required_fields" by (simp add: required_fields_def)
  have a: "py_contains no_nonce_request ''nonce'' = Inr False"
    by (simp add: no_nonce_request_def)
  have others: "\<forall>g \<in> set required_fields. g \<noteq> ''nonce'' \<longrightarrow>
      py_contains no_nonce_request g = Inr True"
    by (simp add: required_fields_def no_nonce_request_def)
  show ?thesis
    using m a others validation_completeness [of "''nonce''" no_nonce_request demo_world]
    unfolding error_response_def by simp
qed

text \<open>
  C6. A request object with all seven fields whose secret differs from the configured
  shared secret gets the response \<open>{error: "Invalid secret"}\<close> and the trace is empty,
  whatever the other fields hold.
\<close>

theorem secret_check:
  "(\<forall>f \<in> set required_fields. f \<in> fst ` set kvs) \<Longrightarrow>
   map_of kvs ''secret'' = Some secret \<Longrightarrow>
   secret \<noteq> env_value (STUDENT_SECRET w) \<Longrightarrow>
   generate_app w (Inr (JObj kvs)) = (Inr (error_response ''Invalid secret''), [])"
proof -
  assume present: "\<forall>f \<in> set required_fields. f \<in> fst ` set kvs"
    and sec: "map_of kvs ''secret'' = Some secret"
    and wrong: "secret \<noteq> env_value (STUDENT_SECRET w)"
  have "check_fields (JObj kvs) required_fields = Inr None"
    using present by (intro check_fields_all_present) simp
  moreover have "py_getitem (JObj kvs) ''secret'' = Inr secret"
    using sec by simp
  ultimately show ?thesis
    using wrong by (simp add: generate_app_checked)
qed

theorem secret_check_witness:
  "generate_app demo_world (Inr wrong_secret_request) =
     (Inr (JObj [(''error'', JStr ''Invalid secret'')]), [])"
proof -
  have present: "\<forall>f \<in> set required_fields. f \<in> fst ` set
     [(''email'', JStr ''a@b.com''), (''secret'', JStr ''guess''), (''task'', JStr ''demo1''),
           (''round'', JInt 1), (''nonce'', JStr ''n1''), (''brief'', JStr ''a hello-world API''),
           (''evaluation_url'', JStr ''http://eval/cb'')]"
    by (simp add: required_fields_def)
  have sec: "map_of [(''email'', JStr ''a@b.com''), (''secret'', JStr ''guess''), (''task'', JStr ''demo1''),
           (''round'', JInt 1), (''nonce'', JStr ''n1''), (''brief'', JStr ''a hello-world API''),
           (''evaluation_url'', JStr ''http://eval/cb'')] ''secret'' = Some (JStr ''guess'')"
    by simp
  have wrong: "JStr ''guess'' \<noteq> env_value (STUDENT_SECRET demo_world)"
    by (simp add: demo_world_def)
  show ?thesis
    using secret_check [OF present sec wrong]
    by (simp add: wrong_secret_request_def error_response_def)
qed

subsection \<open>The stages of the pipeline\<close>



lemma run_bind_step: "m = (Inr a, t1) \<Longrightarrow> run_bind m f = (fst (f a), t1 @ snd (f a))"
  by (simp add: run_bind_Inr)

lemma call_trace [simp]: "snd (call ev r) = [ev]"
  by (simp add: call_def split: sum.splits)

lemma snd_run_bind:
  "snd (run_bind m f) = snd m @ (case fst m of Inl e \<Rightarrow> [] | Inr a \<Rightarrow> snd (f a))"
  by (cases m; cases "fst m") (auto simp: run_bind_def split: prod.splits sum.splits)

lemma callback_posts_simps [simp]:
  "callback_posts [] = []"
  "callback_posts (e # t) = (if is_callback_post e then e # callback_posts t else callback_posts t)"
  by (simp_all add: callback_posts_def)

lemma callback_posts_append [simp]:
  "callback_posts (s @ t) = callback_posts s @ callback_posts t"
  by (simp add: callback_posts_def)

lemma no_posts_bind:
  "callback_posts (snd m) = [] \<Longrightarrow> (\<And>a. callback_posts (snd (f a)) = []) \<Longrightarrow>
   callback_posts (snd (run_bind m f)) = []"
  by (simp add: snd_run_bind split: sum.splits)

lemma no_posts_call: "\<not> is_callback_post ev \<Longrightarrow> callback_posts (snd (call ev r)) = []"
  by simp

lemma no_posts_lift [simp]: "callback_posts (snd (run_lift r)) = []"
  by (simp add: run_lift_def callback_posts_def)

lemma no_posts_ret [simp]: "callback_posts (snd (run_ret a)) = []"
  by (simp add: run_ret_def callback_posts_def)

lemma no_posts_generate_app_code: "callback_posts (snd (generate_app_code w prompt)) = []"
  unfolding generate_app_code_def
  by (auto split: option.splits intro!: no_posts_bind no_posts_call)

lemma no_posts_write_file: "callback_posts (snd (write_file w path content)) = []"
  by (simp add: write_file_def no_posts_call)

lemma no_posts_save_code_to_file: "callback_posts (snd (save_code_to_file w code task)) = []"
  unfolding save_code_to_file_def Let_def
  by (auto split: json.splits intro!: no_posts_bind no_posts_call)

lemma no_posts_git: "callback_posts (snd (git w argv cwd)) = []"
  unfolding git_def by (auto intro!: no_posts_bind no_posts_call)

lemma no_posts_init_git_and_push: "callback_posts (snd (init_git_and_push w folder name)) = []"
  unfolding init_git_and_push_def
  by (intro no_posts_bind no_posts_call no_posts_git no_posts_ret) simp_all

lemma no_posts_stage_and_publish: "callback_posts (snd (stage_and_publish w data)) = []"
  unfolding stage_and_publish_def
  by (intro no_posts_bind no_posts_lift no_posts_generate_app_code no_posts_write_file
      no_posts_init_git_and_push)
    (auto simp: add_mit_license_def no_posts_write_file no_posts_save_code_to_file
      no_posts_init_git_and_push intro!: no_posts_bind)

subsection \<open>The handler by cases\<close>

lemma generate_app_accepted: "accepted w data \<Longrightarrow> generate_app w (Inr data) = pipeline w data"
  by (simp add: accepted_def generate_app_checked)

lemma check_fields_None_present:
  "check_fields data fs = Inr None \<Longrightarrow> f \<in> set fs \<Longrightarrow> py_contains data f = Inr True"
  by (induction fs) (auto split: sum.splits if_splits)

lemma accepted_object:
  assumes "accepted w data"
  obtains kvs where "data = JObj kvs"
  using assms by (cases data) (simp_all add: accepted_def)

lemma accepted_getitem:
  assumes "accepted w data" "f \<in> set required_fields"
  obtains v where "py_getitem data f = Inr v"
proof -
  obtain kvs where d: "data = JObj kvs" using assms(1) by (rule accepted_object)
  have "py_contains data f = Inr True"
    using assms check_fields_None_present [of data required_fields f]
    by (simp add: accepted_def)
  then have "f \<in> fst ` set kvs" using d by simp
  then obtain v where "map_of kvs f = Some v"
    by (metis domD dom_map_of_conv_image_fst)
  then have "py_getitem data f = Inr v" using d by simp
  then show ?thesis by (rule that)
qed

lemma generate_app_cases:
  "(\<exists>msg. generate_app w request = (Inr (error_response (''Invalid JSON: '' @ msg)), [])) \<or>
   (\<exists>field. generate_app w request = (Inr (error_response (''Missing field: '' @ field)), [])) \<or>
   generate_app w request = (Inr (error_response ''Invalid secret''), []) \<or>
   (\<exists>e. generate_app w request = (Inl e, [])) \<or>
   (\<exists>data. request = Inr data \<and> accepted w data \<and> generate_app w request = pipeline w data)"
proof (cases request)
  case (Inl msg)
  then show ?thesis using generate_app_invalid_json [of w msg] by blast
next
  case (Inr data)
  show ?thesis
  proof (cases "check_fields data required_fields")
    case (Inl e)
    then have "generate_app w request = (Inl e, [])" using Inr by (simp add: generate_app_def)
    then show ?thesis by blast
  next
    case chk: (Inr missing)
    show ?thesis
    proof (cases missing)
      case (Some field)
      then have "generate_app w request = (Inr (error_response (''Missing field: '' @ field)), [])"
        using Inr chk by (simp add: generate_app_missing)
      then show ?thesis by blast
    next
      case None
      show ?thesis
      proof (cases "py_getitem data ''secret''")
        case (Inl e)
        then have "generate_app w request = (Inl e, [])"
          using Inr chk None by (simp add: generate_app_def)
        then show ?thesis by blast
      next
        case sec: (Inr s)
        show ?thesis
        proof (cases "s = env_value (STUDENT_SECRET w)")
          case True
          then have "accepted w data" using chk None sec by (simp add: accepted_def)
          then have "request = Inr data \<and> accepted w data \<and> generate_app w request = pipeline w data"
            using Inr by (simp add: generate_app_accepted)
          then show ?thesis by blast
        next
          case False
          then have "generate_app w request = (Inr (error_response ''Invalid secret''), [])"
            using Inr chk None sec by (simp add: generate_app_checked)
          then show ?thesis by blast
        qed
      qed
    qed
  qed
qed

subsection \<open>The notice\<close>

lemma post_loop_events:
  "\<forall>e \<in> set (snd (post_loop w data url k rs)).
     is_notification e \<and> (is_callback_post e \<longrightarrow> e = CallbackPost url data callback_headers)"
proof (induction rs arbitrary: k)
  case Nil
  show ?case by simp
next
  case (Cons r rs)
  obtain b t where rest: "post_loop w data url (Suc k) rs = (b, t)"
    by (cases "post_loop w data url (Suc k) rs") auto
  have t: "\<forall>e \<in> set t.
     is_notification e \<and> (is_callback_post e \<longrightarrow> e = CallbackPost url data callback_headers)"
    using Cons.IH [of "Suc k"] rest by simp
  show ?case
    using t rest by (cases "callback w k url data") auto
qed

lemma notify_cases:
  "(\<exists>e. notify w data r s p = (Inl e, [])) \<or>
   (\<exists>email task round nonce url.
      py_getitem data ''email'' = Inr email \<and> py_getitem data ''task'' = Inr task \<and>
      py_getitem data ''round'' = Inr round \<and> py_getitem data ''nonce'' = Inr nonce \<and>
      py_getitem data ''evaluation_url'' = Inr url \<and>
      notify w data r s p =
        (Inr (if \<not> fst (post_to_evaluation_url w (notice email task round nonce r s p) url)
              then error_response ''Failed to post to evaluation_url after retries''
              else success_response r p),
         snd (post_to_evaluation_url w (notice email task round nonce r s p) url)))"
  by (cases "py_getitem data ''email''"; cases "py_getitem data ''task''";
      cases "py_getitem data ''round''"; cases "py_getitem data ''nonce''";
      cases "py_getitem data ''evaluation_url''")
     (simp_all add: notify_def split: prod.splits)

lemma notify_run:
  assumes "py_getitem data ''email'' = Inr email" "py_getitem data ''task'' = Inr task"
    "py_getitem data ''round'' = Inr round" "py_getitem data ''nonce'' = Inr nonce"
    "py_getitem data ''evaluation_url'' = Inr url"
  shows "notify w data r s p =
        (Inr (if \<not> fst (post_to_evaluation_url w (notice email task round nonce r s p) url)
              then error_response ''Failed to post to evaluation_url after retries''
              else success_response r p),
         snd (post_to_evaluation_url w (notice email task round nonce r s p) url))"
  using assms by (simp add: notify_def split: prod.splits)

lemma pipeline_cases:
  "(\<exists>e. pipeline w data = (Inl e, snd (stage_and_publish w data)) \<and>
        fst (stage_and_publish w data) = Inl e) \<or>
   (\<exists>r s p. stage_and_publish w data = (Inr (r, s, p), snd (stage_and_publish w data)) \<and>
        pipeline w data = (fst (notify w data r s p),
                           snd (stage_and_publish w data) @ snd (notify w data r s p)))"
proof (cases "stage_and_publish w data")
  case (Pair res t)
  show ?thesis
  proof (cases res)
    case (Inl e)
    then show ?thesis using Pair by (simp add: pipeline_def)
  next
    case (Inr d)
    obtain r s p where d: "d = (r, s, p)" by (cases d) auto
    show ?thesis using Pair Inr d by (simp add: pipeline_def run_bind_Inr)
  qed
qed


lemma no_posts_mem: "callback_posts t = [] \<Longrightarrow> e \<in> set t \<Longrightarrow> \<not> is_callback_post e"
  by (auto simp: callback_posts_def filter_empty_conv)

lemma pipeline_posts:
  "\<exists>url email task round nonce r s p.
     \<forall>e \<in> set (snd (pipeline w data)). is_callback_post e \<longrightarrow>
       e = CallbackPost url (notice email task round nonce r s p) callback_headers"
proof -
  have quiet: "\<And>e. e \<in> set (snd (stage_and_publish w data)) \<Longrightarrow> \<not> is_callback_post e"
    using no_posts_mem [OF no_posts_stage_and_publish] by blast
  from pipeline_cases [of w data] show ?thesis
  proof (elim disjE exE conjE)
    fix e assume "pipeline w data = (Inl e, snd (stage_and_publish w data))"
    then show ?thesis using quiet by auto
  next
    fix r s p
    assume run: "pipeline w data = (fst (notify w data r s p),
        snd (stage_and_publish w data) @ snd (notify w data r s p))"
    from notify_cases [of w data r s p] show ?thesis
    proof (elim disjE exE conjE)
      fix e assume "notify w data r s p = (Inl e, [])"
      then show ?thesis using run quiet by auto
    next
      fix email task round nonce url
      assume n: "notify w data r s p =
        (Inr (if \<not> fst (post_to_evaluation_url w (notice email task round nonce r s p) url)
              then error_response ''Failed to post to evaluation_url after retries''
              else success_response r p),
         snd (post_to_evaluation_url w (notice email task round nonce r s p) url))"
      have "\<forall>e \<in> set (snd (pipeline w data)). is_callback_post e \<longrightarrow>
          e = CallbackPost url (notice email task round nonce r s p) callback_headers"
        using run n quiet post_loop_events [of w "notice email task round nonce r s p" url 0 retries]
        by (auto simp: post_to_evaluation_url_def)
      then show ?thesis by blast
    qed
  qed
qed

lemma generate_app_posts:
  "\<exists>url email task round nonce r s p.
     \<forall>e \<in> set (snd (generate_app w request)). is_callback_post e \<longrightarrow>
       e = CallbackPost url (notice email task round nonce r s p) callback_headers"
  using generate_app_cases [of w request] pipeline_posts
  by (elim disjE exE conjE) auto

text \<open>
  C8. Every POST the dispatcher makes carries the body and the address it was given, and
  all POSTs to the callback within one run of the handler carry the same body, the same
  address and the same headers; the body is the notice with the keys email, task, round,
  nonce, repo_url, commit_sha and pages_url. Equal bodies are serialized to equal bytes.
\<close>

theorem notice_identical:
  "(CallbackPost u b h \<in> set (snd (post_to_evaluation_url w data url)) \<longrightarrow>
      b = data \<and> u = url \<and> h = callback_headers) \<and>
   (CallbackPost url1 body1 h1 \<in> set (snd (generate_app w request)) \<and>
    CallbackPost url2 body2 h2 \<in> set (snd (generate_app w request)) \<longrightarrow>
      body1 = body2 \<and> url1 = url2 \<and> h1 = h2 \<and>
      (\<exists>email task round nonce repo_url commit_sha pages_url.
         body1 = notice email task round nonce repo_url commit_sha pages_url))"
proof -
  have one: "b = data \<and> u = url \<and> h = callback_headers"
    if "CallbackPost u b h \<in> set (snd (post_to_evaluation_url w data url))"
    using that post_loop_events [of w data url 0 retries]
    by (auto simp: post_to_evaluation_url_def)
  have two: "body1 = body2 \<and> url1 = url2 \<and> h1 = h2 \<and>
      (\<exists>email task round nonce repo_url commit_sha pages_url.
         body1 = notice email task round nonce repo_url commit_sha pages_url)"
    if a: "CallbackPost url1 body1 h1 \<in> set (snd (generate_app w request)) \<and>
      CallbackPost url2 body2 h2 \<in> set (snd (generate_app w request))"
  proof -
    obtain url email task round nonce r s p where
      all: "\<forall>e \<in> set (snd (generate_app w request)). is_callback_post e \<longrightarrow>
         e = CallbackPost url (notice email task round nonce r s p) callback_headers"
      using generate_app_posts [of w request] by blast
    have 1: "CallbackPost url1 body1 h1 =
        CallbackPost url (notice email task round nonce r s p) callback_headers"
      using a all by force
    have 2: "CallbackPost url2 body2 h2 =
        CallbackPost url (notice email task round nonce r s p) callback_headers"
      using a all by force
    show ?thesis using 1 2 by blast
  qed
  show ?thesis using one two by blast
qed

theorem notice_identical_witness:
  "CallbackPost (JStr ''http://eval/cb'') demo_notice callback_headers
      \<in> set (snd (post_to_evaluation_url always_fails demo_notice (JStr ''http://eval/cb''))) \<and>
   callback_posts (snd (generate_app always_fails (Inr demo_request))) =
     [CallbackPost (JStr ''http://eval/cb'') demo_notice callback_headers,
      CallbackPost (JStr ''http://eval/cb'') demo_notice callback_headers,
      CallbackPost (JStr ''http://eval/cb'') demo_notice callback_headers,
      CallbackPost (JStr ''http://eval/cb'') demo_notice callback_headers] \<and>
   (\<exists>email task round nonce repo_url commit_sha pages_url.
      demo_notice = notice email task round nonce repo_url commit_sha pages_url)"
proof -
  have d: "CallbackPost (JStr ''http://eval/cb'') demo_notice callback_headers
      \<in> set (snd (post_to_evaluation_url always_fails demo_notice (JStr ''http://eval/cb'')))"
    by code_simp
  have m: "CallbackPost (JStr ''http://eval/cb'') demo_notice callback_headers
      \<in> set (snd (generate_app always_fails (Inr demo_request)))"
    by code_simp
  have posts: "callback_posts (snd (generate_app always_fails (Inr demo_request))) =
     [CallbackPost (JStr ''http://eval/cb'') demo_notice callback_headers,
      CallbackPost (JStr ''http://eval/cb'') demo_notice callback_headers,
      CallbackPost (JStr ''http://eval/cb'') demo_notice callback_headers,
      CallbackPost (JStr ''http://eval/cb'') demo_notice callback_headers]"
    by code_simp
  show ?thesis
    using d m posts
      notice_identical [of "JStr ''http://eval/cb''" demo_notice callback_headers always_fails
        demo_notice "JStr ''http://eval/cb''"
        "JStr ''http://eval/cb''" demo_notice callback_headers "Inr demo_request"
        "JStr ''http://eval/cb''" demo_notice callback_headers]
    by blast
qed

subsection \<open>The secret check\<close>




subsection \<open>Runs that reach the dispatcher\<close>

lemma accepted_lookup:
  "accepted w data \<Longrightarrow> f \<in> set required_fields \<Longrightarrow> \<exists>v. py_getitem data f = Inr v"
  by (erule accepted_getitem) auto




lemma callback_posts_posts_and_sleeps: "callback_posts (posts_and_sleeps t) = callback_posts t"
proof (induction t)
  case Nil
  show ?case by (simp add: posts_and_sleeps_def)
next
  case (Cons e t)
  then show ?case by (cases e) (simp_all add: posts_and_sleeps_def)
qed


lemma generate_app_published:
  assumes acc: "accepted w data"
    and pub: "stage_and_publish w data = (Inr (repo_url, commit_sha, pages_url), t)"
    and e: "py_getitem data ''email'' = Inr email" and ta: "py_getitem data ''task'' = Inr task"
    and r: "py_getitem data ''round'' = Inr round" and n: "py_getitem data ''nonce'' = Inr nonce"
    and url: "py_getitem data ''evaluation_url'' = Inr url"
  shows "generate_app w (Inr data) =
       (Inr (if \<not> fst (post_to_evaluation_url w
                        (notice email task round nonce repo_url commit_sha pages_url) url)
             then error_response ''Failed to post to evaluation_url after retries''
             else success_response repo_url pages_url),
        t @ snd (post_to_evaluation_url w
                  (notice email task round nonce repo_url commit_sha pages_url) url))"
proof -
  have "generate_app w (Inr data) = pipeline w data"
    using acc by (rule generate_app_accepted)
  also have "\<dots> = (fst (notify w data repo_url commit_sha pages_url),
      t @ snd (notify w data repo_url commit_sha pages_url))"
    using pub by (simp add: pipeline_def run_bind_Inr)
  finally show ?thesis
    by (simp add: notify_run [OF e ta r n url])
qed




lemma callback_posts_failed_step:
  assumes "\<not> attempt_ok w data url k"
  shows "callback_posts (snd (post_loop w data url k (r # rs))) =
     CallbackPost url data callback_headers # callback_posts (snd (post_loop w data url (Suc k) rs))"
  using post_loop_failed(2) [OF assms, of r rs]
    callback_posts_posts_and_sleeps [of "snd (post_loop w data url k (r # rs))"]
    callback_posts_posts_and_sleeps [of "snd (post_loop w data url (Suc k) rs)"]
  by (simp del: post_loop.simps)

lemma post_loop_False:
  "fst (post_loop w body url k rs) = False \<Longrightarrow>
     (\<forall>i<length rs. \<not> attempt_ok w body url (k + i)) \<and>
     callback_posts (snd (post_loop w body url k rs)) =
       replicate (length rs) (CallbackPost url body callback_headers)"
proof (induction rs arbitrary: k)
  case Nil
  show ?case by simp
next
  case (Cons r rs)
  have here: "\<not> attempt_ok w body url k"
  proof
    assume "attempt_ok w body url k"
    then have "post_loop w body url k (r # rs) = (True, [CallbackPost url body callback_headers])"
      by (rule post_loop_ok)
    with Cons.prems show False by simp
  qed
  have "fst (post_loop w body url (Suc k) rs) = False"
    using Cons.prems post_loop_failed(1) [OF here, of r rs] by simp
  from Cons.IH [OF this]
  have later: "\<forall>i<length rs. \<not> attempt_ok w body url (Suc k + i)"
    and posts: "callback_posts (snd (post_loop w body url (Suc k) rs)) =
       replicate (length rs) (CallbackPost url body callback_headers)"
    by simp_all
  have all: "\<forall>i<length (r # rs). \<not> attempt_ok w body url (k + i)"
  proof (intro allI impI)
    fix i assume "i < length (r # rs)"
    then show "\<not> attempt_ok w body url (k + i)"
      using here later by (cases i) simp_all
  qed
  show ?case
    using all posts callback_posts_failed_step [OF here, of r rs]
    by (simp del: post_loop.simps)
qed

lemma post_to_evaluation_url_False:
  assumes "fst (post_to_evaluation_url w body url) = False"
  shows "(\<forall>k<4. \<not> attempt_ok w body url k) \<and>
     callback_posts (snd (post_to_evaluation_url w body url)) =
       replicate 4 (CallbackPost url body callback_headers)"
  using post_loop_False [of w body url 0 retries] assms
  by (simp add: post_to_evaluation_url_def retries_def eval_nat_numeral del: post_loop.simps)


lemma generate_app_delivered:
  assumes acc: "accepted w data"
    and pub: "stage_and_publish w data = (Inr (repo_url, commit_sha, pages_url), t)"
    and url: "py_getitem data ''evaluation_url'' = Inr url"
    and k: "k < 4" and ok: "\<forall>body. attempt_ok w body url k"
  shows "fst (generate_app w (Inr data)) = Inr (success_response repo_url pages_url)"
proof -
  obtain email where e: "py_getitem data ''email'' = Inr email"
    using accepted_lookup [OF acc, of "''email''"] by (auto simp: required_fields_def)
  obtain task where ta: "py_getitem data ''task'' = Inr task"
    using accepted_lookup [OF acc, of "''task''"] by (auto simp: required_fields_def)
  obtain round where r: "py_getitem data ''round'' = Inr round"
    using accepted_lookup [OF acc, of "''round''"] by (auto simp: required_fields_def)
  obtain nonce where n: "py_getitem data ''nonce'' = Inr nonce"
    using accepted_lookup [OF acc, of "''nonce''"] by (auto simp: required_fields_def)
  define body where "body = notice email task round nonce repo_url commit_sha pages_url"
  have "fst (post_to_evaluation_url w body url) \<noteq> False"
    using post_to_evaluation_url_False [of w body url] k ok by blast
  then show ?thesis
    using generate_app_published [OF acc pub e ta r n url] by (simp add: body_def)
qed



subsection \<open>The end-to-end run\<close>









subsection \<open>Failures of publication\<close>




lemma format_value_run_git [simp]:
  "format_value (w\<lparr>run_git := g\<rparr>) v = format_value w v"
  by (cases v) simp_all



subsection \<open>Collaborators that raise\<close>

lemma git_run:
  "git w argv cwd =
     (case run_git w argv cwd of
        Inl m \<Rightarrow> (Inl (External m), [GitRun argv cwd])
      | Inr status \<Rightarrow> (Inr (), [GitRun argv cwd]))"
  by (simp add: git_def call_def run_bind_def run_ret_def split: sum.splits)


lemma init_git_and_push_push_raises:
  assumes "gh_create_repo w (GITHUB_TOKEN w) name = Inr clone_url"
    "run_git w [''git'', ''init''] folder = Inr s1"
    "run_git w [''git'', ''add'', ''.''] folder = Inr s2"
    "run_git w [''git'', ''commit'', ''-m'', ''Initial commit''] folder = Inr s3"
    "run_git w [''git'', ''branch'', ''-M'', ''main''] folder = Inr s4"
    "run_git w [''git'', ''remote'', ''add'', ''origin'', clone_url] folder = Inr s5"
    "run_git w [''git'', ''push'', ''-u'', ''origin'', ''main''] folder = Inl m"
  shows "init_git_and_push w folder name =
     (Inl (External m),
      [CreateRepo (GITHUB_TOKEN w) name,
       GitRun [''git'', ''init''] folder,
       GitRun [''git'', ''add'', ''.''] folder,
       GitRun [''git'', ''commit'', ''-m'', ''Initial commit''] folder,
       GitRun [''git'', ''branch'', ''-M'', ''main''] folder,
       GitRun [''git'', ''remote'', ''add'', ''origin'', clone_url] folder,
       GitRun [''git'', ''push'', ''-u'', ''origin'', ''main''] folder])"
  using assms by (simp add: init_git_and_push_def call_def git_run run_bind_Inr)




lemma save_code_to_file_run:
  "save_code_to_file w code (JStr task) =
     (case fs_makedirs w (staged_folder w task) of
        Inl m \<Rightarrow> (Inl (External m), [MakeDirs (staged_folder w task)])
      | Inr u \<Rightarrow>
          (case fs_write w (path_join (staged_folder w task) ''app.py'') code of
             Inl m \<Rightarrow> (Inl (External m),
                        [MakeDirs (staged_folder w task),
                         WriteFile (path_join (staged_folder w task) ''app.py'') code])
           | Inr u' \<Rightarrow> (Inr (staged_folder w task, path_join (staged_folder w task) ''app.py''),
                         [MakeDirs (staged_folder w task),
                          WriteFile (path_join (staged_folder w task) ''app.py'') code])))"
  by (simp add: save_code_to_file_def Let_def call_def run_bind_def run_ret_def split: sum.splits)


lemma write_file_run:
  "write_file w path content =
     (case fs_write w path content of
        Inl m \<Rightarrow> (Inl (External m), [WriteFile path content])
      | Inr u \<Rightarrow> (Inr (), [WriteFile path content]))"
  by (simp add: write_file_def call_def split: sum.splits)

lemma stage_and_publish_run:
  assumes "py_getitem data ''task'' = Inr task" "py_getitem data ''brief'' = Inr brief"
    "generate_app_code w brief = (Inr code, t1)"
  shows "stage_and_publish w data =
     run_bind (Inr code, t1) (\<lambda>code.
     run_bind (save_code_to_file w code task) (\<lambda>(folder, file_path).
     run_bind (write_file w (path_join folder ''README.md'') (create_readme w task brief)) (\<lambda>_.
     run_bind (add_mit_license w folder) (\<lambda>_.
     init_git_and_push w folder task))))"
  using assms by (simp add: stage_and_publish_def)

lemma generate_app_storage_raises:
  assumes acc: "accepted w data"
    and task: "py_getitem data ''task'' = Inr (JStr task)"
    and brief: "py_getitem data ''brief'' = Inr brief"
    and synth: "generate_app_code w brief = (Inr code, t1)"
  shows "fs_makedirs w (staged_folder w task) = Inl m \<Longrightarrow>
           generate_app w (Inr data) =
             (Inl (External m), t1 @ [MakeDirs (staged_folder w task)])"
    and "fs_makedirs w (staged_folder w task) = Inr () \<Longrightarrow>
         fs_write w (path_join (staged_folder w task) ''app.py'') code = Inl m \<Longrightarrow>
           generate_app w (Inr data) =
             (Inl (External m),
              t1 @ [MakeDirs (staged_folder w task),
                    WriteFile (path_join (staged_folder w task) ''app.py'') code])"
    and "fs_makedirs w (staged_folder w task) = Inr () \<Longrightarrow>
         fs_write w (path_join (staged_folder w task) ''app.py'') code = Inr () \<Longrightarrow>
         fs_write w (path_join (staged_folder w task) ''README.md'')
           (create_readme w (JStr task) brief) = Inl m \<Longrightarrow>
           generate_app w (Inr data) =
             (Inl (External m),
              t1 @ [MakeDirs (staged_folder w task),
                    WriteFile (path_join (staged_folder w task) ''app.py'') code,
                    WriteFile (path_join (staged_folder w task) ''README.md'')
                      (create_readme w (JStr task) brief)])"
    and "fs_makedirs w (staged_folder w task) = Inr () \<Longrightarrow>
         fs_write w (path_join (staged_folder w task) ''app.py'') code = Inr () \<Longrightarrow>
         fs_write w (path_join (staged_folder w task) ''README.md'')
           (create_readme w (JStr task) brief) = Inr () \<Longrightarrow>
         fs_write w (path_join (staged_folder w task) ''LICENSE'') license_text = Inl m \<Longrightarrow>
           generate_app w (Inr data) =
             (Inl (External m),
              t1 @ [MakeDirs (staged_folder w task),
                    WriteFile (path_join (staged_folder w task) ''app.py'') code,
                    WriteFile (path_join (staged_folder w task) ''README.md'')
                      (create_readme w (JStr task) brief),
                    WriteFile (path_join (staged_folder w task) ''LICENSE'') license_text])"
  by (simp_all add: generate_app_accepted [OF acc] pipeline_def
      stage_and_publish_run [OF task brief synth] save_code_to_file_run write_file_run
      add_mit_license_def run_bind_Inr)








subsection \<open>Failures of synthesis\<close>


lemma generate_app_code_replied:
  assumes "AI_PIPE_API_URL w = Some api_url" "api_url \<noteq> []"
    "AI_PIPE_API_KEY w = Some api_key" "api_key \<noteq> []"
    "ai_pipe w api_url (ai_pipe_headers api_key) (ai_pipe_payload w prompt) = Inr response"
  shows "generate_app_code w prompt =
     (if status_code response \<noteq> 200 then Inl (request_failed response)
      else exn_bind (exn_bind (response_json response) (extract_content w)) (py_strip w),
      [SynthesisPost api_url (ai_pipe_headers api_key) (ai_pipe_payload w prompt)])"
  using assms
  by (cases "response_json response"; cases "exn_bind (response_json response) (extract_content w)")
     (simp_all add: generate_app_code_def call_def run_bind_Inr run_lift_def exn_bind_def)

lemma extract_content_no_choices:
  assumes "py_getitem reply ''choices'' = Inl KeyError"
  shows "extract_content w reply =
     Inl (RuntimeError (''Unexpected AI Pipe response: '' @ format_value w reply))"
  using assms by (simp add: extract_content_def exn_bind_def)



subsection \<open>What the synthesizer raises\<close>




lemma extract_content_steps:
  shows "py_getitem reply ''choices'' = Inl TypeError \<Longrightarrow> extract_content w reply = Inl TypeError"
    and "py_getitem reply ''choices'' = Inr choices \<Longrightarrow> py_getitem0 choices = Inl IndexError \<Longrightarrow>
         extract_content w reply =
           Inl (RuntimeError (''Unexpected AI Pipe response: '' @ format_value w reply))"
    and "py_getitem reply ''choices'' = Inr choices \<Longrightarrow> py_getitem0 choices = Inl KeyError \<Longrightarrow>
         extract_content w reply =
           Inl (RuntimeError (''Unexpected AI Pipe response: '' @ format_value w reply))"
    and "py_getitem reply ''choices'' = Inr choices \<Longrightarrow> py_getitem0 choices = Inr choice \<Longrightarrow>
         py_getitem choice ''message'' = Inl KeyError \<Longrightarrow>
         extract_content w reply =
           Inl (RuntimeError (''Unexpected AI Pipe response: '' @ format_value w reply))"
    and "py_getitem reply ''choices'' = Inr choices \<Longrightarrow> py_getitem0 choices = Inr choice \<Longrightarrow>
         py_getitem choice ''message'' = Inl TypeError \<Longrightarrow>
         extract_content w reply = Inl TypeError"
    and "py_getitem reply ''choices'' = Inr choices \<Longrightarrow> py_getitem0 choices = Inr choice \<Longrightarrow>
         py_getitem choice ''message'' = Inr message \<Longrightarrow>
         py_getitem message ''content'' = Inl KeyError \<Longrightarrow>
         extract_content w reply =
           Inl (RuntimeError (''Unexpected AI Pipe response: '' @ format_value w reply))"
    and "py_getitem reply ''choices'' = Inr choices \<Longrightarrow> py_getitem0 choices = Inr choice \<Longrightarrow>
         py_getitem choice ''message'' = Inr message \<Longrightarrow>
         py_getitem message ''content'' = Inr content \<Longrightarrow>
         extract_content w reply = Inr content"
  by (simp_all add: extract_content_def exn_bind_def)



lemma generate_app_code_content_not_str:
  assumes "AI_PIPE_API_URL w = Some api_url" "api_url \<noteq> []"
    "AI_PIPE_API_KEY w = Some api_key" "api_key \<noteq> []"
    "ai_pipe w api_url (ai_pipe_headers api_key) (ai_pipe_payload w prompt) = Inr response"
    "status_code response = 200" "json_body response = Inr reply"
    "extract_content w reply = Inr content"
  shows "(\<forall>s. content \<noteq> JStr s) \<Longrightarrow>
           generate_app_code w prompt =
             (Inl AttributeError,
              [SynthesisPost api_url (ai_pipe_headers api_key) (ai_pipe_payload w prompt)])"
    and "content = JStr s \<Longrightarrow>
           generate_app_code w prompt =
             (Inr (str_strip w s),
              [SynthesisPost api_url (ai_pipe_headers api_key) (ai_pipe_payload w prompt)])"
  using assms(6-8)
  by (cases content;
      simp add: generate_app_code_replied [OF assms(1-5)] response_json_def exn_bind_def)+

lemma generate_app_code_not_json:
  assumes "AI_PIPE_API_URL w = Some api_url" "api_url \<noteq> []"
    "AI_PIPE_API_KEY w = Some api_key" "api_key \<noteq> []"
    "ai_pipe w api_url (ai_pipe_headers api_key) (ai_pipe_payload w prompt) = Inr response"
    "status_code response = 200" "json_body response = Inl m"
  shows "generate_app_code w prompt =
     (Inl (External m),
      [SynthesisPost api_url (ai_pipe_headers api_key) (ai_pipe_payload w prompt)])"
  using assms(6,7)
  by (simp add: generate_app_code_replied [OF assms(1-5)] response_json_def exn_bind_def)





end
